theory Spec2Isabelle
  imports Main "HOL-Library.Sublist" "HOL-Library.AList"
begin

section \<open>Values, errors and strings\<close>

text \<open>
  The documents exchanged with the remote service are JSON values, held by the Python code
  as \<open>None\<close>, \<open>bool\<close>, \<open>int\<close>, \<open>str\<close>, \<open>list\<close> and \<open>dict\<close>. A \<open>dict\<close> is an
  association list in insertion order. Numbers are integers; strings are byte strings and
  the letter-case functions act on the ASCII letters.
\<close>

datatype json =
    JNull
  | JBool bool
  | JInt int
  | JStr string
  | JArr "json list"
  | JObj "(string \<times> json) list"

text \<open>
  An exception is its class together with the text of \<open>str(e)\<close>.
\<close>

datatype exn_class =
  Exception | ValueError | KeyError | TimeoutError | AttributeError | TypeError | RequestException

datatype error = Raise (exn_class: exn_class) (message: string)

definition lower_char :: "char \<Rightarrow> char" where
  "lower_char c =
     (let n = (of_char c :: nat) in if 65 \<le> n \<and> n \<le> 90 then char_of (n + 32) else c)"

definition upper_char :: "char \<Rightarrow> char" where
  "upper_char c =
     (let n = (of_char c :: nat) in if 97 \<le> n \<and> n \<le> 122 then char_of (n - 32) else c)"

definition lower :: "string \<Rightarrow> string" where
  "lower s = map lower_char s"

definition upper :: "string \<Rightarrow> string" where
  "upper s = map upper_char s"

text \<open>\<open>s.find(sub)\<close>: the lowest index at which \<open>sub\<close> starts in \<open>s\<close>, or \<open>-1\<close>.\<close>

fun find_from :: "string \<Rightarrow> string \<Rightarrow> nat \<Rightarrow> int" where
  "find_from sub [] i = (if sub = [] then int i else - 1)"
| "find_from sub (c # cs) i =
     (if prefix sub (c # cs) then int i else find_from sub cs (Suc i))"

definition py_find :: "string \<Rightarrow> string \<Rightarrow> int" where
  "py_find s sub = find_from sub s 0"

text \<open>\<open>s.split(sep)\<close> for a one-character separator.\<close>

fun split_on :: "char \<Rightarrow> string \<Rightarrow> string list" where
  "split_on sep [] = [[]]"
| "split_on sep (c # cs) =
     (if c = sep then [] # split_on sep cs
      else (case split_on sep cs of
              [] \<Rightarrow> [[c]]
            | w # ws \<Rightarrow> (c # w) # ws))"

text \<open>Decimal text of an integer, as \<open>str\<close> gives it.\<close>

fun str_nat :: "nat \<Rightarrow> string" where
  "str_nat n =
     (if n < 10 then [char_of (48 + n)]
      else str_nat (n div 10) @ [char_of (48 + n mod 10)])"

declare str_nat.simps [simp del]

definition str_int :: "int \<Rightarrow> string" where
  "str_int i = (if i < 0 then CHR ''-'' # str_nat (nat (- i)) else str_nat (nat i))"

text \<open>
  \<open>str(v)\<close>, as an f-string renders a value. The text of a list or a dict is the
  interpreter's \<open>repr\<close>, taken as a parameter.
\<close>

definition py_str :: "(json \<Rightarrow> string) \<Rightarrow> json \<Rightarrow> string" where
  "py_str repr v =
     (case v of
        JNull \<Rightarrow> ''None''
      | JBool b \<Rightarrow> (if b then ''True'' else ''False'')
      | JInt i \<Rightarrow> str_int i
      | JStr s \<Rightarrow> s
      | _ \<Rightarrow> repr v)"

text \<open>Truth value of a Python object in \<open>if v:\<close>.\<close>

definition truthy :: "json \<Rightarrow> bool" where
  "truthy v =
     (case v of
        JNull \<Rightarrow> False
      | JBool b \<Rightarrow> b
      | JInt i \<Rightarrow> i \<noteq> 0
      | JStr s \<Rightarrow> s \<noteq> []
      | JArr xs \<Rightarrow> xs \<noteq> []
      | JObj kvs \<Rightarrow> kvs \<noteq> [])"

definition type_name :: "json \<Rightarrow> string" where
  "type_name v =
     (case v of
        JNull \<Rightarrow> ''NoneType''
      | JBool _ \<Rightarrow> ''bool''
      | JInt _ \<Rightarrow> ''int''
      | JStr _ \<Rightarrow> ''str''
      | JArr _ \<Rightarrow> ''list''
      | JObj _ \<Rightarrow> ''dict'')"

definition no_attribute :: "json \<Rightarrow> string \<Rightarrow> error" where
  "no_attribute v attr =
     Raise AttributeError
       ([CHR 0x27] @ type_name v @ [CHR 0x27] @ '' object has no attribute ''
          @ [CHR 0x27] @ attr @ [CHR 0x27])"

text \<open>\<open>v.get(key, default)\<close>: only a dict has the method.\<close>

definition py_get :: "json \<Rightarrow> string \<Rightarrow> json \<Rightarrow> error + json" where
  "py_get v key dflt =
     (case v of
        JObj kvs \<Rightarrow> (case map_of kvs key of None \<Rightarrow> Inr dflt | Some x \<Rightarrow> Inr x)
      | _ \<Rightarrow> Inl (no_attribute v ''get''))"

text \<open>\<open>key in v\<close> for a string key.\<close>

definition py_in :: "string \<Rightarrow> json \<Rightarrow> error + bool" where
  "py_in key v =
     (case v of
        JObj kvs \<Rightarrow> Inr (key \<in> fst ` set kvs)
      | JArr xs \<Rightarrow> Inr (JStr key \<in> set xs)
      | JStr s \<Rightarrow> Inr (sublist key s)
      | _ \<Rightarrow> Inl (Raise TypeError
                (''argument of type '' @ [CHR 0x27] @ type_name v @ [CHR 0x27]
                   @ '' is not iterable'')))"

text \<open>\<open>v[key]\<close> for a string key.\<close>

definition py_index :: "json \<Rightarrow> string \<Rightarrow> error + json" where
  "py_index v key =
     (case v of
        JObj kvs \<Rightarrow>
          (case map_of kvs key of
             None \<Rightarrow> Inl (Raise KeyError ([CHR 0x27] @ key @ [CHR 0x27]))
           | Some x \<Rightarrow> Inr x)
      | JArr _ \<Rightarrow> Inl (Raise TypeError ''list indices must be integers or slices, not str'')
      | JStr _ \<Rightarrow> Inl (Raise TypeError
                (''string indices must be integers, not '' @ [CHR 0x27] @ ''str'' @ [CHR 0x27]))
      | _ \<Rightarrow> Inl (Raise TypeError
                ([CHR 0x27] @ type_name v @ [CHR 0x27] @ '' object is not subscriptable'')))"

text \<open>The elements a \<open>for\<close> loop or a comprehension draws from a value.\<close>

definition py_iter :: "json \<Rightarrow> error + json list" where
  "py_iter v =
     (case v of
        JArr xs \<Rightarrow> Inr xs
      | JObj kvs \<Rightarrow> Inr (map (\<lambda>kv. JStr (fst kv)) kvs)
      | JStr s \<Rightarrow> Inr (map (\<lambda>c. JStr [c]) s)
      | _ \<Rightarrow> Inl (Raise TypeError
                ([CHR 0x27] @ type_name v @ [CHR 0x27] @ '' object is not iterable'')))"

text \<open>
  A list comprehension \<open>[x for x in xs if p(x)]\<close> whose condition may raise: the first
  exception ends the comprehension.
\<close>

fun comprehension :: "('a \<Rightarrow> error + bool) \<Rightarrow> 'a list \<Rightarrow> error + 'a list" where
  "comprehension p [] = Inr []"
| "comprehension p (x # xs) =
     (case p x of
        Inl e \<Rightarrow> Inl e
      | Inr keep \<Rightarrow>
          (case comprehension p xs of
             Inl e \<Rightarrow> Inl e
           | Inr ys \<Rightarrow> Inr (if keep then x # ys else ys)))"

section \<open>The HTTP boundary\<close>

text \<open>
  The \<open>requests\<close> library is outside the repository. A request is what the client hands
  to it; a response is what the client observes of it: whether \<open>raise_for_status()\<close>
  raises (and with which status line), the body text, and what \<open>.json()\<close> yields (the
  parsed body, or the exception raised for a body that is not valid JSON). A call to
  \<open>requests.get\<close>, \<open>post\<close>, \<open>delete\<close> or \<open>put\<close> either raises an exception that is not an
  \<open>HTTPError\<close> (a connection failure) or returns a response.
\<close>

record request =
  req_method :: string
  req_url :: string
  req_headers :: "(string \<times> string) list"
  req_json :: "json option"

record response =
  raise_for_status :: "string option"
  body_text :: string
  body_json :: "error + json"

type_synonym network = "request \<Rightarrow> error + response"

record runtime =
  http :: network
  repr :: "json \<Rightarrow> string"
  dumps :: "json \<Rightarrow> string"
  getenv :: "string \<Rightarrow> string option"

record api =
  api_token :: string

definition BASE_URL :: string where
  "BASE_URL = ''https://api.digitalocean.com/v2''"

definition DigitalOceanAPI :: "string \<Rightarrow> api" where
  "DigitalOceanAPI tok = \<lparr>api_token = tok\<rparr>"

definition headers :: "api \<Rightarrow> (string \<times> string) list" where
  "headers a =
     [(''Authorization'', ''Bearer '' @ api_token a),
      (''Content-Type'', ''application/json'')]"

section \<open>The request primitive\<close>

text \<open>
  The \<open>except requests.exceptions.HTTPError\<close> block of \<open>_make_request\<close>, the same in both
  files: \<open>line\<close> is \<open>str(e)\<close>. The inner bare \<open>except\<close> catches whatever \<open>.json()\<close>, the
  membership test or the subscript raises.
\<close>

definition error_msg :: "(json \<Rightarrow> string) \<Rightarrow> string \<Rightarrow> response \<Rightarrow> string" where
  "error_msg rp line r =
     (case body_json r of
        Inl _ \<Rightarrow> ''API Error: '' @ body_text r
      | Inr error_data \<Rightarrow>
          (case py_in ''message'' error_data of
             Inl _ \<Rightarrow> ''API Error: '' @ body_text r
           | Inr False \<Rightarrow> ''API Error: '' @ line
           | Inr True \<Rightarrow>
               (case py_index error_data ''message'' of
                  Inl _ \<Rightarrow> ''API Error: '' @ body_text r
                | Inr m \<Rightarrow> ''API Error: '' @ py_str rp m)))"

definition after_send :: "runtime \<Rightarrow> error + response \<Rightarrow> error + json" where
  "after_send rt sent =
     (case sent of
        Inl e \<Rightarrow> Inl e
      | Inr r \<Rightarrow>
          (case raise_for_status r of
             None \<Rightarrow> body_json r
           | Some line \<Rightarrow> Inl (Raise Exception (error_msg (repr rt) line r))))"

text \<open>\<open>DigitalOceanAPI._make_request\<close> of \<open>deploy_gpu_droplet.py\<close>.\<close>

definition make_request ::
  "runtime \<Rightarrow> api \<Rightarrow> string \<Rightarrow> string \<Rightarrow> json option \<Rightarrow> error + json" where
  "make_request rt a method endpoint data =
     (let url = BASE_URL @ endpoint in
      if upper method = ''GET'' then
        after_send rt (http rt \<lparr>req_method = ''GET'', req_url = url,
                                req_headers = headers a, req_json = None\<rparr>)
      else if upper method = ''POST'' then
        after_send rt (http rt \<lparr>req_method = ''POST'', req_url = url,
                                req_headers = headers a, req_json = data\<rparr>)
      else if upper method = ''DELETE'' then
        after_send rt (http rt \<lparr>req_method = ''DELETE'', req_url = url,
                                req_headers = headers a, req_json = None\<rparr>)
      else Inl (Raise ValueError (''Unsupported HTTP method: '' @ method)))"

text \<open>\<open>DigitalOceanAPI._make_request\<close> of \<open>mcp_server.py\<close>, which also knows \<open>PUT\<close>.\<close>

definition mcp_make_request ::
  "runtime \<Rightarrow> api \<Rightarrow> string \<Rightarrow> string \<Rightarrow> json option \<Rightarrow> error + json" where
  "mcp_make_request rt a method endpoint data =
     (let url = BASE_URL @ endpoint in
      if upper method = ''GET'' then
        after_send rt (http rt \<lparr>req_method = ''GET'', req_url = url,
                                req_headers = headers a, req_json = None\<rparr>)
      else if upper method = ''POST'' then
        after_send rt (http rt \<lparr>req_method = ''POST'', req_url = url,
                                req_headers = headers a, req_json = data\<rparr>)
      else if upper method = ''DELETE'' then
        after_send rt (http rt \<lparr>req_method = ''DELETE'', req_url = url,
                                req_headers = headers a, req_json = None\<rparr>)
      else if upper method = ''PUT'' then
        after_send rt (http rt \<lparr>req_method = ''PUT'', req_url = url,
                                req_headers = headers a, req_json = data\<rparr>)
      else Inl (Raise ValueError (''Unsupported HTTP method: '' @ method)))"

text \<open>\<open>response.get(key, default)\<close> on the outcome of a request.\<close>

definition unwrap :: "error + json \<Rightarrow> string \<Rightarrow> json \<Rightarrow> error + json" where
  "unwrap res key dflt =
     (case res of Inl e \<Rightarrow> Inl e | Inr resp \<Rightarrow> py_get resp key dflt)"

section \<open>Client operations of \<open>deploy_gpu_droplet.py\<close>\<close>

definition get_regions :: "runtime \<Rightarrow> api \<Rightarrow> error + json" where
  "get_regions rt a = unwrap (make_request rt a ''GET'' ''/regions'' None) ''regions'' (JArr [])"

text \<open>The condition of the GPU comprehension, on one element of the size list.\<close>

definition is_gpu_size :: "json \<Rightarrow> error + bool" where
  "is_gpu_size sz =
     (case py_get sz ''description'' (JStr []) of
        Inl e \<Rightarrow> Inl e
      | Inr (JStr d) \<Rightarrow> Inr (py_find (lower d) ''gpu'' \<noteq> - 1)
      | Inr v \<Rightarrow> Inl (no_attribute v ''lower''))"

definition gpu_filter :: "json \<Rightarrow> error + json" where
  "gpu_filter sizes =
     (case py_iter sizes of
        Inl e \<Rightarrow> Inl e
      | Inr xs \<Rightarrow>
          (case comprehension is_gpu_size xs of
             Inl e \<Rightarrow> Inl e
           | Inr ys \<Rightarrow> Inr (JArr ys)))"

definition get_gpu_sizes :: "runtime \<Rightarrow> api \<Rightarrow> error + json" where
  "get_gpu_sizes rt a =
     (case unwrap (make_request rt a ''GET'' ''/sizes'' None) ''sizes'' (JArr []) of
        Inl e \<Rightarrow> Inl e
      | Inr sizes \<Rightarrow> gpu_filter sizes)"

definition get_snapshot :: "runtime \<Rightarrow> api \<Rightarrow> json \<Rightarrow> error + json" where
  "get_snapshot rt a snapshot_id =
     unwrap (make_request rt a ''GET'' (''/snapshots/'' @ py_str (repr rt) snapshot_id) None)
       ''snapshot'' (JObj [])"

text \<open>
  The body built by \<open>create_droplet\<close>, the same in both files. A keyword argument that the
  caller leaves out is \<open>None\<close> here and takes the default of the signature:
  \<open>ssh_keys=None\<close>, \<open>tags=None\<close>, \<open>user_data=None\<close>, \<open>monitoring=False\<close>, \<open>ipv6=False\<close>,
  \<open>private_networking=True\<close>.
\<close>

definition droplet_data ::
  "json \<Rightarrow> json \<Rightarrow> json \<Rightarrow> json \<Rightarrow> json option \<Rightarrow> json option \<Rightarrow> json option \<Rightarrow>
   json option \<Rightarrow> json option \<Rightarrow> json option \<Rightarrow> (string \<times> json) list" where
  "droplet_data name region sz img ssh_keys tags user_data monitoring ipv6
       private_networking =
     (let ssh_keys = (case ssh_keys of None \<Rightarrow> JNull | Some v \<Rightarrow> v);
          tags = (case tags of None \<Rightarrow> JNull | Some v \<Rightarrow> v);
          user_data = (case user_data of None \<Rightarrow> JNull | Some v \<Rightarrow> v);
          monitoring = (case monitoring of None \<Rightarrow> JBool False | Some v \<Rightarrow> v);
          ipv6 = (case ipv6 of None \<Rightarrow> JBool False | Some v \<Rightarrow> v);
          private_networking =
            (case private_networking of None \<Rightarrow> JBool True | Some v \<Rightarrow> v);
          d0 = [(''name'', name), (''region'', region), (''size'', sz), (''image'', img),
                (''monitoring'', monitoring), (''ipv6'', ipv6),
                (''private_networking'', private_networking)];
          d1 = (if truthy ssh_keys then AList.update ''ssh_keys'' ssh_keys d0 else d0);
          d2 = (if truthy tags then AList.update ''tags'' tags d1 else d1);
          d3 = (if truthy user_data then AList.update ''user_data'' user_data d2 else d2)
      in d3)"

definition create_droplet ::
  "runtime \<Rightarrow> api \<Rightarrow> json \<Rightarrow> json \<Rightarrow> json \<Rightarrow> json \<Rightarrow> json option \<Rightarrow> json option \<Rightarrow>
   json option \<Rightarrow> json option \<Rightarrow> json option \<Rightarrow> json option \<Rightarrow> error + json" where
  "create_droplet rt a name region sz snapshot_id ssh_keys tags user_data monitoring ipv6
       private_networking =
     unwrap
       (make_request rt a ''POST'' ''/droplets''
          (Some (JObj (droplet_data name region sz snapshot_id ssh_keys tags user_data
                         monitoring ipv6 private_networking))))
       ''droplet'' (JObj [])"

definition get_droplet :: "runtime \<Rightarrow> api \<Rightarrow> json \<Rightarrow> error + json" where
  "get_droplet rt a droplet_id =
     unwrap (make_request rt a ''GET'' (''/droplets/'' @ py_str (repr rt) droplet_id) None)
       ''droplet'' (JObj [])"

section \<open>The poll loop\<close>

text \<open>
  \<open>wait_for_droplet\<close> reads the clock and the remote service. Time is counted in whole
  time units. The remote service is a function of the poll index: the time the fetch
  takes and how the network answers during that fetch. \<open>time.sleep(5)\<close> adds five
  units. The loop is the function \<open>wait_loop\<close>: \<open>now\<close> is the reading of \<open>time.time()\<close>
  at the loop test and \<open>polls\<close> counts the calls of \<open>get_droplet\<close> made so far; the
  result carries the count of calls made in all.
\<close>

type_synonym remote = "nat \<Rightarrow> nat \<times> network"

definition error_state_msg :: "runtime \<Rightarrow> json \<Rightarrow> string" where
  "error_state_msg rt droplet_id =
     ''Droplet '' @ py_str (repr rt) droplet_id @ '' entered error state''"

definition timeout_msg :: "runtime \<Rightarrow> json \<Rightarrow> int \<Rightarrow> string" where
  "timeout_msg rt droplet_id timeout =
     ''Droplet '' @ py_str (repr rt) droplet_id @ '' did not become active within ''
       @ str_int timeout @ '' seconds''"

function wait_loop ::
  "runtime \<Rightarrow> remote \<Rightarrow> api \<Rightarrow> json \<Rightarrow> int \<Rightarrow> int \<Rightarrow> int \<Rightarrow> nat \<Rightarrow> (error + json) \<times> nat"
where
  "wait_loop rt rem a droplet_id timeout start_time now polls =
     (if now - start_time < timeout then
        (case get_droplet (rt\<lparr>http := snd (rem polls)\<rparr>) a droplet_id of
           Inl e \<Rightarrow> (Inl e, Suc polls)
         | Inr droplet \<Rightarrow>
             (case py_get droplet ''status'' (JStr []) of
                Inl e \<Rightarrow> (Inl e, Suc polls)
              | Inr status \<Rightarrow>
                  if status = JStr ''active'' then (Inr droplet, Suc polls)
                  else if status = JStr ''error'' then
                    (Inl (Raise Exception (error_state_msg rt droplet_id)), Suc polls)
                  else wait_loop rt rem a droplet_id timeout start_time
                         (now + int (fst (rem polls)) + 5) (Suc polls)))
      else (Inl (Raise TimeoutError (timeout_msg rt droplet_id timeout)), polls))"
  by pat_completeness auto
termination
  by (relation "measure (\<lambda>(rt, rem, a, droplet_id, timeout, start_time, now, polls).
                   nat (timeout - (now - start_time)))") auto

declare wait_loop.simps [simp del]

text \<open>The parameter \<open>timeout\<close> has the default 300: \<open>None\<close> is a call that leaves it out.\<close>

definition timeout_of :: "int option \<Rightarrow> int" where
  "timeout_of t = (case t of None \<Rightarrow> 300 | Some v \<Rightarrow> v)"

definition wait_for_droplet ::
  "runtime \<Rightarrow> remote \<Rightarrow> api \<Rightarrow> json \<Rightarrow> int option \<Rightarrow> int \<Rightarrow> (error + json) \<times> nat" where
  "wait_for_droplet rt rem a droplet_id timeout start_time =
     wait_loop rt rem a droplet_id (timeout_of timeout) start_time start_time 0"

text \<open>
  What poll \<open>i\<close> observes: the droplet document and its status, or the exception raised
  by the fetch or by reading the status.
\<close>

definition poll :: "runtime \<Rightarrow> remote \<Rightarrow> api \<Rightarrow> json \<Rightarrow> nat \<Rightarrow> error + json \<times> json" where
  "poll rt rem a droplet_id i =
     (case get_droplet (rt\<lparr>http := snd (rem i)\<rparr>) a droplet_id of
        Inl e \<Rightarrow> Inl e
      | Inr droplet \<Rightarrow>
          (case py_get droplet ''status'' (JStr []) of
             Inl e \<Rightarrow> Inl e
           | Inr status \<Rightarrow> Inr (droplet, status)))"

definition pending :: "runtime \<Rightarrow> remote \<Rightarrow> api \<Rightarrow> json \<Rightarrow> nat \<Rightarrow> bool" where
  "pending rt rem a droplet_id i =
     (case poll rt rem a droplet_id i of
        Inl _ \<Rightarrow> False
      | Inr (_, status) \<Rightarrow> status \<noteq> JStr ''active'' \<and> status \<noteq> JStr ''error'')"

text \<open>
  The elapsed time at the loop test before poll \<open>i\<close>, when every earlier poll left the
  droplet pending.
\<close>

primrec poll_time :: "remote \<Rightarrow> nat \<Rightarrow> int" where
  "poll_time rem 0 = 0"
| "poll_time rem (Suc i) = poll_time rem i + int (fst (rem i)) + 5"

text \<open>
  A simulated remote service: poll \<open>i\<close> takes no time and answers with a success response
  whose droplet document carries the \<open>i\<close>-th status of the list (and \<open>"new"\<close> past its
  end).
\<close>

definition droplet_doc :: "string \<Rightarrow> json" where
  "droplet_doc s = JObj [(''id'', JInt 7), (''status'', JStr s)]"

definition ok_response :: "json \<Rightarrow> response" where
  "ok_response j = \<lparr>raise_for_status = None, body_text = [], body_json = Inr j\<rparr>"

definition simulated :: "string list \<Rightarrow> remote" where
  "simulated statuses i =
     (0, \<lambda>req. Inr (ok_response
            (JObj [(''droplet'',
                    droplet_doc (if i < length statuses then statuses ! i else ''new''))])))"

definition rt0 :: runtime where
  "rt0 = \<lparr>http = (\<lambda>req. Inl (Raise RequestException ''unreachable'')),
          repr = (\<lambda>v. ''?''), dumps = (\<lambda>v. ''?''), getenv = (\<lambda>k. None)\<rparr>"

section \<open>Configuration of the provisioning script\<close>

text \<open>The \<open>config\<close> dictionary built by \<open>main\<close> from the environment.\<close>

record config =
  cfg_droplet_name :: string
  cfg_region :: string
  cfg_size :: string
  cfg_snapshot_id :: "string option"
  cfg_ssh_keys :: "string list option"
  cfg_tags :: "string list option"
  cfg_monitoring :: bool
  cfg_ipv6 :: bool
  cfg_private_networking :: bool
  cfg_wait_for_active :: bool

definition getenv_or :: "(string \<Rightarrow> string option) \<Rightarrow> string \<Rightarrow> string \<Rightarrow> string" where
  "getenv_or env k dflt = (case env k of None \<Rightarrow> dflt | Some v \<Rightarrow> v)"

definition env_set :: "(string \<Rightarrow> string option) \<Rightarrow> string \<Rightarrow> bool" where
  "env_set env k = (case env k of None \<Rightarrow> False | Some v \<Rightarrow> v \<noteq> [])"

definition load_config :: "(string \<Rightarrow> string option) \<Rightarrow> config" where
  "load_config env =
     \<lparr>cfg_droplet_name = getenv_or env ''DROPLET_NAME'' ''gpu-droplet'',
      cfg_region = getenv_or env ''DROPLET_REGION'' ''nyc1'',
      cfg_size = getenv_or env ''DROPLET_SIZE'' ''g-2vcpu-16gb'',
      cfg_snapshot_id = env ''SNAPSHOT_ID'',
      cfg_ssh_keys =
        (if env_set env ''SSH_KEYS''
         then Some (split_on CHR '','' (getenv_or env ''SSH_KEYS'' [])) else None),
      cfg_tags =
        (if env_set env ''DROPLET_TAGS''
         then Some (split_on CHR '','' (getenv_or env ''DROPLET_TAGS'' [])) else None),
      cfg_monitoring = (lower (getenv_or env ''MONITORING'' ''false'') = ''true''),
      cfg_ipv6 = (lower (getenv_or env ''IPV6'' ''false'') = ''true''),
      cfg_private_networking =
        (lower (getenv_or env ''PRIVATE_NETWORKING'' ''true'') = ''true''),
      cfg_wait_for_active = (lower (getenv_or env ''WAIT_FOR_ACTIVE'' ''true'') = ''true'')\<rparr>"

section \<open>Client operations of \<open>mcp_server.py\<close>\<close>

definition mcp_get_regions :: "runtime \<Rightarrow> api \<Rightarrow> error + json" where
  "mcp_get_regions rt a =
     unwrap (mcp_make_request rt a ''GET'' ''/regions'' None) ''regions'' (JArr [])"

definition mcp_get_sizes :: "runtime \<Rightarrow> api \<Rightarrow> error + json" where
  "mcp_get_sizes rt a =
     unwrap (mcp_make_request rt a ''GET'' ''/sizes'' None) ''sizes'' (JArr [])"

definition mcp_get_gpu_sizes :: "runtime \<Rightarrow> api \<Rightarrow> error + json" where
  "mcp_get_gpu_sizes rt a =
     (case mcp_get_sizes rt a of
        Inl e \<Rightarrow> Inl e
      | Inr sizes \<Rightarrow> gpu_filter sizes)"

definition mcp_get_images :: "runtime \<Rightarrow> api \<Rightarrow> error + json" where
  "mcp_get_images rt a =
     unwrap (mcp_make_request rt a ''GET'' ''/images'' None) ''images'' (JArr [])"

definition is_snapshot :: "json \<Rightarrow> error + bool" where
  "is_snapshot img =
     (case py_get img ''type'' JNull of
        Inl e \<Rightarrow> Inl e
      | Inr t \<Rightarrow> Inr (t = JStr ''snapshot''))"

definition mcp_get_snapshots :: "runtime \<Rightarrow> api \<Rightarrow> error + json" where
  "mcp_get_snapshots rt a =
     (case mcp_get_images rt a of
        Inl e \<Rightarrow> Inl e
      | Inr images \<Rightarrow>
          (case py_iter images of
             Inl e \<Rightarrow> Inl e
           | Inr xs \<Rightarrow>
               (case comprehension is_snapshot xs of
                  Inl e \<Rightarrow> Inl e
                | Inr ys \<Rightarrow> Inr (JArr ys))))"

definition mcp_get_snapshot :: "runtime \<Rightarrow> api \<Rightarrow> json \<Rightarrow> error + json" where
  "mcp_get_snapshot rt a snapshot_id =
     unwrap
       (mcp_make_request rt a ''GET'' (''/snapshots/'' @ py_str (repr rt) snapshot_id) None)
       ''snapshot'' (JObj [])"

definition mcp_get_droplets :: "runtime \<Rightarrow> api \<Rightarrow> error + json" where
  "mcp_get_droplets rt a =
     unwrap (mcp_make_request rt a ''GET'' ''/droplets'' None) ''droplets'' (JArr [])"

definition mcp_get_droplet :: "runtime \<Rightarrow> api \<Rightarrow> json \<Rightarrow> error + json" where
  "mcp_get_droplet rt a droplet_id =
     unwrap
       (mcp_make_request rt a ''GET'' (''/droplets/'' @ py_str (repr rt) droplet_id) None)
       ''droplet'' (JObj [])"

definition mcp_create_droplet ::
  "runtime \<Rightarrow> api \<Rightarrow> json \<Rightarrow> json \<Rightarrow> json \<Rightarrow> json \<Rightarrow> json option \<Rightarrow> json option \<Rightarrow>
   json option \<Rightarrow> json option \<Rightarrow> json option \<Rightarrow> json option \<Rightarrow> error + json" where
  "mcp_create_droplet rt a name region sz img ssh_keys tags user_data monitoring ipv6
       private_networking =
     unwrap
       (mcp_make_request rt a ''POST'' ''/droplets''
          (Some (JObj (droplet_data name region sz img ssh_keys tags user_data
                         monitoring ipv6 private_networking))))
       ''droplet'' (JObj [])"

definition mcp_delete_droplet :: "runtime \<Rightarrow> api \<Rightarrow> json \<Rightarrow> error + json" where
  "mcp_delete_droplet rt a droplet_id =
     mcp_make_request rt a ''DELETE'' (''/droplets/'' @ py_str (repr rt) droplet_id) None"

definition mcp_get_ssh_keys :: "runtime \<Rightarrow> api \<Rightarrow> error + json" where
  "mcp_get_ssh_keys rt a =
     unwrap (mcp_make_request rt a ''GET'' ''/account/keys'' None) ''ssh_keys'' (JArr [])"

definition mcp_get_account_info :: "runtime \<Rightarrow> api \<Rightarrow> error + json" where
  "mcp_get_account_info rt a =
     unwrap (mcp_make_request rt a ''GET'' ''/account'' None) ''account'' (JObj [])"

section \<open>The tool dispatch server\<close>

text \<open>The module-level \<open>api_client\<close> is the state of the server.\<close>

record server_state =
  api_client :: "api option"

record text_content =
  tc_type :: string
  tc_text :: string

definition TextContent :: "string \<Rightarrow> text_content" where
  "TextContent t = \<lparr>tc_type = ''text'', tc_text = t\<rparr>"

definition get_api_client :: "runtime \<Rightarrow> server_state \<Rightarrow> (error + api) \<times> server_state" where
  "get_api_client rt st =
     (case api_client st of
        None \<Rightarrow>
          (if env_set (getenv rt) ''DIGITALOCEAN_API_TOKEN''
           then (let c = DigitalOceanAPI (getenv_or (getenv rt) ''DIGITALOCEAN_API_TOKEN'' [])
                 in (Inr c, st\<lparr>api_client := Some c\<rparr>))
           else (Inl (Raise ValueError
                        ''DIGITALOCEAN_API_TOKEN environment variable is not set''), st))
      | Some c \<Rightarrow> (Inr c, st))"

text \<open>The names of the catalog returned by \<open>list_tools\<close>.\<close>

definition tool_names :: "string list" where
  "tool_names =
     [''do_list_regions'', ''do_list_sizes'', ''do_list_snapshots'', ''do_get_snapshot'',
      ''do_list_droplets'', ''do_get_droplet'', ''do_create_droplet'', ''do_delete_droplet'',
      ''do_list_ssh_keys'', ''do_get_account_info'']"

definition bind_err :: "error + 'a \<Rightarrow> ('a \<Rightarrow> error + 'b) \<Rightarrow> error + 'b" where
  "bind_err r f = (case r of Inl e \<Rightarrow> Inl e | Inr v \<Rightarrow> f v)"

text \<open>A branch of \<open>call_tool\<close> that ends in \<open>json.dumps(result, indent=2)\<close>.\<close>

definition dumped :: "runtime \<Rightarrow> error + json \<Rightarrow> error + text_content list" where
  "dumped rt r = bind_err r (\<lambda>v. Inr [TextContent (dumps rt v)])"

text \<open>The body of the second \<open>try\<close> of \<open>call_tool\<close>, before its \<open>except\<close>.\<close>

definition dispatch :: "runtime \<Rightarrow> api \<Rightarrow> string \<Rightarrow> json \<Rightarrow> error + text_content list" where
  "dispatch rt a name arguments =
     (if name = ''do_list_regions'' then dumped rt (mcp_get_regions rt a)
      else if name = ''do_list_sizes'' then
        bind_err (py_get arguments ''gpu_only'' (JBool False)) (\<lambda>gpu_only.
          if truthy gpu_only then dumped rt (mcp_get_gpu_sizes rt a)
          else dumped rt (mcp_get_sizes rt a))
      else if name = ''do_list_snapshots'' then dumped rt (mcp_get_snapshots rt a)
      else if name = ''do_get_snapshot'' then
        bind_err (py_get arguments ''snapshot_id'' JNull) (\<lambda>snapshot_id.
          dumped rt (mcp_get_snapshot rt a snapshot_id))
      else if name = ''do_list_droplets'' then dumped rt (mcp_get_droplets rt a)
      else if name = ''do_get_droplet'' then
        bind_err (py_get arguments ''droplet_id'' JNull) (\<lambda>droplet_id.
          dumped rt (mcp_get_droplet rt a droplet_id))
      else if name = ''do_create_droplet'' then
        bind_err (py_index arguments ''name'') (\<lambda>nm.
        bind_err (py_index arguments ''region'') (\<lambda>region.
        bind_err (py_index arguments ''size'') (\<lambda>sz.
        bind_err (py_index arguments ''image'') (\<lambda>img.
        bind_err (py_get arguments ''ssh_keys'' JNull) (\<lambda>ssh_keys.
        bind_err (py_get arguments ''tags'' JNull) (\<lambda>tags.
        bind_err (py_get arguments ''user_data'' JNull) (\<lambda>user_data.
        bind_err (py_get arguments ''monitoring'' (JBool False)) (\<lambda>monitoring.
        bind_err (py_get arguments ''ipv6'' (JBool False)) (\<lambda>ipv6.
        bind_err (py_get arguments ''private_networking'' (JBool True)) (\<lambda>private_networking.
          dumped rt (mcp_create_droplet rt a nm region sz img (Some ssh_keys) (Some tags)
                       (Some user_data) (Some monitoring) (Some ipv6)
                       (Some private_networking))))))))))))
      else if name = ''do_delete_droplet'' then
        bind_err (py_get arguments ''droplet_id'' JNull) (\<lambda>droplet_id.
          dumped rt (mcp_delete_droplet rt a droplet_id))
      else if name = ''do_list_ssh_keys'' then dumped rt (mcp_get_ssh_keys rt a)
      else if name = ''do_get_account_info'' then dumped rt (mcp_get_account_info rt a)
      else Inr [TextContent (''Unknown tool: '' @ name)])"

text \<open>
  \<open>call_tool\<close>: the first \<open>try\<close> catches \<open>ValueError\<close>, the second catches \<open>Exception\<close>,
  of which every class of \<open>exn_class\<close> is a subclass. \<open>Inl\<close> would be an exception that
  leaves \<open>call_tool\<close>.
\<close>

definition call_tool ::
  "runtime \<Rightarrow> server_state \<Rightarrow> string \<Rightarrow> json \<Rightarrow> (error + text_content list) \<times> server_state"
where
  "call_tool rt st name arguments =
     (case get_api_client rt st of
        (Inl e, st') \<Rightarrow>
          (if exn_class e = ValueError
           then (Inr [TextContent (''Error: '' @ message e)], st')
           else (Inl e, st'))
      | (Inr a, st') \<Rightarrow>
          (case dispatch rt a name arguments of
             Inl e \<Rightarrow> (Inr [TextContent (''Error: '' @ message e)], st')
           | Inr out \<Rightarrow> (Inr out, st')))"

section \<open>Notions used to state the properties\<close>

text \<open>
  An entry of a size list as the remote service sends it: an object whose
  \<open>description\<close>, when present, is a string. \<open>description\<close> is that string (empty
  when the key is absent).
\<close>

fun size_entry :: "json \<Rightarrow> bool" where
  "size_entry (JObj kvs) =
     (case map_of kvs ''description'' of
        None \<Rightarrow> True
      | Some (JStr _) \<Rightarrow> True
      | Some _ \<Rightarrow> False)"
| "size_entry _ = False"

fun description :: "json \<Rightarrow> string" where
  "description (JObj kvs) =
     (case map_of kvs ''description'' of Some (JStr d) \<Rightarrow> d | _ \<Rightarrow> [])"
| "description _ = []"

text \<open>
  A value of an environment variable that is the word \<open>true\<close> in any mix of upper and
  lower case.
\<close>

definition is_true_ci :: "string \<Rightarrow> bool" where
  "is_true_ci v =
     (case v of
        [c1, c2, c3, c4] \<Rightarrow>
          (c1 = CHR ''t'' \<or> c1 = CHR ''T'') \<and> (c2 = CHR ''r'' \<or> c2 = CHR ''R'')
          \<and> (c3 = CHR ''u'' \<or> c3 = CHR ''U'') \<and> (c4 = CHR ''e'' \<or> c4 = CHR ''E'')
      | _ \<Rightarrow> False)"

text \<open>A size entry with a description, for the examples.\<close>

definition size_doc :: "string \<Rightarrow> string \<Rightarrow> json" where
  "size_doc slug d = JObj [(''slug'', JStr slug), (''description'', JStr d)]"

text \<open>
  Two failing responses, for the examples: a 404 whose body is a JSON object with a
  \<open>message\<close>, and a 502 whose body is not JSON.
\<close>

definition quoted :: "string \<Rightarrow> string" where
  "quoted s = [CHR 0x22] @ s @ [CHR 0x22]"

definition not_found_response :: response where
  "not_found_response =
     \<lparr>raise_for_status =
        Some ''404 Client Error: Not Found for url: https://api.digitalocean.com/v2/droplets/1'',
      body_text = ''{'' @ quoted ''message'' @ '': '' @ quoted ''not found'' @ ''}'',
      body_json = Inr (JObj [(''message'', JStr ''not found'')])\<rparr>"

definition bad_gateway_response :: response where
  "bad_gateway_response =
     \<lparr>raise_for_status =
        Some ''502 Server Error: Bad Gateway for url: https://api.digitalocean.com/v2/droplets/1'',
      body_text = ''Bad Gateway'',
      body_json = Inl (Raise RequestException ''Expecting value: line 1 column 1 (char 0)'')\<rparr>"

text \<open>The values that \<open>if v:\<close> takes as false.\<close>

definition falsy_values :: "json list" where
  "falsy_values = [JNull, JBool False, JInt 0, JStr [], JArr [], JObj []]"


definition TOKEN :: string where
  "TOKEN = ''DIGITALOCEAN_API_TOKEN''"

definition not_set_text :: string where
  "not_set_text = ''Error: DIGITALOCEAN_API_TOKEN environment variable is not set''"



section \<open>Properties of the poll loop\<close>

subsection \<open>One iteration\<close>

lemma wait_loop_expired:
  "timeout \<le> now - start_time \<Longrightarrow>
   wait_loop rt rem a d timeout start_time now n =
     (Inl (Raise TimeoutError (timeout_msg rt d timeout)), n)"
  by (subst wait_loop.simps) simp

lemma wait_loop_pending:
  "pending rt rem a d n \<Longrightarrow> now - start_time < timeout \<Longrightarrow>
   wait_loop rt rem a d timeout start_time now n =
     wait_loop rt rem a d timeout start_time (now + int (fst (rem n)) + 5) (Suc n)"
  by (subst wait_loop.simps) (auto simp: pending_def poll_def split: sum.splits)

lemma wait_loop_active:
  "poll rt rem a d n = Inr (doc, JStr ''active'') \<Longrightarrow> now - start_time < timeout \<Longrightarrow>
   wait_loop rt rem a d timeout start_time now n = (Inr doc, Suc n)"
  by (subst wait_loop.simps) (auto simp: poll_def split: sum.splits)

lemma wait_loop_error:
  "poll rt rem a d n = Inr (doc, JStr ''error'') \<Longrightarrow> now - start_time < timeout \<Longrightarrow>
   wait_loop rt rem a d timeout start_time now n =
     (Inl (Raise Exception (error_state_msg rt d)), Suc n)"
  by (subst wait_loop.simps) (auto simp: poll_def split: sum.splits)

subsection \<open>The elapsed time grows with every poll\<close>

lemma poll_time_mono: "i \<le> j \<Longrightarrow> poll_time rem i \<le> poll_time rem j"
  by (induction j) (auto simp: le_Suc_eq)

lemma poll_time_lower: "5 * int i \<le> poll_time rem i"
  by (induction i) auto

lemma earlier_in_budget:
  "poll_time rem k < timeout \<Longrightarrow> i < k \<Longrightarrow> poll_time rem i < timeout"
  using poll_time_mono [of i k rem] by simp

subsection \<open>A run of pending polls\<close>

lemma wait_loop_reach:
  "n \<le> k \<Longrightarrow>
   \<forall>i. n \<le> i \<and> i < k \<longrightarrow> pending rt rem a d i \<and> poll_time rem i < timeout \<Longrightarrow>
   wait_loop rt rem a d timeout s (s + poll_time rem n) n =
     wait_loop rt rem a d timeout s (s + poll_time rem k) k"
proof (induction k)
  case 0
  then show ?case by simp
next
  case (Suc k)
  show ?case
  proof (cases "n = Suc k")
    case True
    then show ?thesis by simp
  next
    case False
    with Suc.prems have nk: "n \<le> k" by simp
    from Suc.prems nk have pk: "pending rt rem a d k" and tk: "poll_time rem k < timeout"
      by auto
    have "wait_loop rt rem a d timeout s (s + poll_time rem n) n =
          wait_loop rt rem a d timeout s (s + poll_time rem k) k"
      using Suc.IH nk Suc.prems by simp
    also have "\<dots> =
          wait_loop rt rem a d timeout s (s + poll_time rem k + int (fst (rem k)) + 5) (Suc k)"
      using wait_loop_pending [OF pk, of "s + poll_time rem k" s timeout] tk by simp
    finally show ?thesis by (simp add: add.assoc)
  qed
qed

lemma wait_from_start:
  "\<forall>i<k. pending rt rem a d i \<and> poll_time rem i < timeout_of t \<Longrightarrow>
   wait_for_droplet rt rem a d t s =
     wait_loop rt rem a d (timeout_of t) s (s + poll_time rem k) k"
  using wait_loop_reach [of 0 k rt rem a d "timeout_of t" s]
  by (simp add: wait_for_droplet_def)

lemma wait_timeout_at:
  assumes "\<forall>i<k. pending rt rem a d i \<and> poll_time rem i < timeout_of t"
      and "timeout_of t \<le> poll_time rem k"
  shows "wait_for_droplet rt rem a d t s =
           (Inl (Raise TimeoutError (timeout_msg rt d (timeout_of t))), k)"
proof -
  have "wait_for_droplet rt rem a d t s =
          wait_loop rt rem a d (timeout_of t) s (s + poll_time rem k) k"
    using assms(1) by (rule wait_from_start)
  also have "\<dots> = (Inl (Raise TimeoutError (timeout_msg rt d (timeout_of t))), k)"
    using assms(2) by (simp add: wait_loop_expired)
  finally show ?thesis .
qed

subsection \<open>The simulated service\<close>

lemma poll_simulated:
  "poll rt (simulated xs) a d i =
     Inr (droplet_doc (if i < length xs then xs ! i else ''new''),
          JStr (if i < length xs then xs ! i else ''new''))"
  by (simp add: poll_def get_droplet_def unwrap_def make_request_def upper_def upper_char_def
      after_send_def simulated_def ok_response_def py_get_def droplet_doc_def Let_def)

lemma poll_time_simulated: "poll_time (simulated xs) i = 5 * int i"
  by (induction i) (auto simp: simulated_def)

lemma messages_differ: "timeout_msg rt d timeout \<noteq> error_state_msg rt d"
  by (simp add: timeout_msg_def error_state_msg_def)

subsection \<open>Claims on the poll loop\<close>

text \<open>
  Claim C1. Whatever the remote service answers: when poll \<open>k\<close> is the first whose status
  is \<open>"active"\<close> (the polls before it left the droplet pending) and the budget is not
  used up when poll \<open>k\<close> starts, \<open>wait_for_droplet\<close> returns the droplet document of poll
  \<open>k\<close> and has made exactly \<open>k + 1\<close> fetches: no poll follows, and no exception is raised.
\<close>

theorem wait_returns_first_active:
  assumes "\<forall>i<k. pending rt rem a d i"
      and "poll rt rem a d k = Inr (doc, JStr ''active'')"
      and "poll_time rem k < timeout_of t"
  shows "wait_for_droplet rt rem a d t s = (Inr doc, Suc k)"
proof -
  have "\<forall>i<k. pending rt rem a d i \<and> poll_time rem i < timeout_of t"
    using assms(1) earlier_in_budget [OF assms(3)] by blast
  then have "wait_for_droplet rt rem a d t s =
     wait_loop rt rem a d (timeout_of t) s (s + poll_time rem k) k"
    by (rule wait_from_start)
  also have "\<dots> = (Inr doc, Suc k)"
    using wait_loop_active [OF assms(2), of "s + poll_time rem k" s "timeout_of t"] assms(3)
    by simp
  finally show ?thesis .
qed

text \<open>
  The statuses \<open>["new", "new", "active"]\<close> under the default budget: the third response
  is returned after three fetches.
\<close>

theorem wait_returns_first_active_witness:
  "pending rt0 (simulated [''new'', ''new'', ''active'']) (DigitalOceanAPI ''tok'') (JInt 7) 0
   \<and> pending rt0 (simulated [''new'', ''new'', ''active'']) (DigitalOceanAPI ''tok'') (JInt 7) 1
   \<and> poll rt0 (simulated [''new'', ''new'', ''active'']) (DigitalOceanAPI ''tok'') (JInt 7) 2
       = Inr (droplet_doc ''active'', JStr ''active'')
   \<and> poll_time (simulated [''new'', ''new'', ''active'']) 2 < timeout_of None
   \<and> wait_for_droplet rt0 (simulated [''new'', ''new'', ''active''])
        (DigitalOceanAPI ''tok'') (JInt 7) None 0
       = (Inr (droplet_doc ''active''), 3)"
proof -
  have p: "\<forall>i<2. pending rt0 (simulated [''new'', ''new'', ''active''])
             (DigitalOceanAPI ''tok'') (JInt 7) i"
    by (simp add: pending_def poll_simulated less_Suc_eq numeral_2_eq_2)
  have q: "poll rt0 (simulated [''new'', ''new'', ''active'']) (DigitalOceanAPI ''tok'')
             (JInt 7) 2 = Inr (droplet_doc ''active'', JStr ''active'')"
    by (simp add: poll_simulated)
  have r: "poll_time (simulated [''new'', ''new'', ''active'']) 2 < timeout_of None"
    by (simp add: poll_time_simulated timeout_of_def)
  have "wait_for_droplet rt0 (simulated [''new'', ''new'', ''active''])
          (DigitalOceanAPI ''tok'') (JInt 7) None 0 = (Inr (droplet_doc ''active''), 3)"
    using wait_returns_first_active [OF p q r, of 0] by (simp add: numeral_3_eq_3 numeral_2_eq_2)
  with p q r show ?thesis by simp
qed

text \<open>
  Claim C2. Whatever the remote service answers: when poll \<open>k\<close> is the first whose status
  is \<open>"error"\<close> (the polls before it left the droplet pending) and the budget is not used
  up when poll \<open>k\<close> starts, \<open>wait_for_droplet\<close> raises the failure-state exception at poll
  \<open>k\<close>, after exactly \<open>k + 1\<close> fetches: there is no retry and no further poll.
\<close>

theorem wait_raises_on_first_error:
  assumes "\<forall>i<k. pending rt rem a d i"
      and "poll rt rem a d k = Inr (doc, JStr ''error'')"
      and "poll_time rem k < timeout_of t"
  shows "wait_for_droplet rt rem a d t s =
           (Inl (Raise Exception (error_state_msg rt d)), Suc k)"
proof -
  have "\<forall>i<k. pending rt rem a d i \<and> poll_time rem i < timeout_of t"
    using assms(1) earlier_in_budget [OF assms(3)] by blast
  then have "wait_for_droplet rt rem a d t s =
     wait_loop rt rem a d (timeout_of t) s (s + poll_time rem k) k"
    by (rule wait_from_start)
  also have "\<dots> = (Inl (Raise Exception (error_state_msg rt d)), Suc k)"
    using wait_loop_error [OF assms(2), of "s + poll_time rem k" s "timeout_of t"] assms(3)
    by simp
  finally show ?thesis .
qed

text \<open>
  The statuses \<open>["new", "error"]\<close>: the exception is raised at the second poll, after two
  fetches.
\<close>

theorem wait_raises_on_first_error_witness:
  "pending rt0 (simulated [''new'', ''error'']) (DigitalOceanAPI ''tok'') (JInt 7) 0
   \<and> poll rt0 (simulated [''new'', ''error'']) (DigitalOceanAPI ''tok'') (JInt 7) 1
       = Inr (droplet_doc ''error'', JStr ''error'')
   \<and> poll_time (simulated [''new'', ''error'']) 1 < timeout_of None
   \<and> wait_for_droplet rt0 (simulated [''new'', ''error'']) (DigitalOceanAPI ''tok'')
        (JInt 7) None 0
       = (Inl (Raise Exception ''Droplet 7 entered error state''), 2)"
proof -
  have p: "\<forall>i<1. pending rt0 (simulated [''new'', ''error'']) (DigitalOceanAPI ''tok'')
             (JInt 7) i"
    by (simp add: pending_def poll_simulated)
  have q: "poll rt0 (simulated [''new'', ''error'']) (DigitalOceanAPI ''tok'') (JInt 7) 1
             = Inr (droplet_doc ''error'', JStr ''error'')"
    by (simp add: poll_simulated)
  have r: "poll_time (simulated [''new'', ''error'']) 1 < timeout_of None"
    by (simp add: simulated_def timeout_of_def)
  have m: "error_state_msg rt0 (JInt 7) = ''Droplet 7 entered error state''"
    by code_simp
  have "wait_for_droplet rt0 (simulated [''new'', ''error'']) (DigitalOceanAPI ''tok'')
          (JInt 7) None 0 = (Inl (Raise Exception ''Droplet 7 entered error state''), 2)"
    using wait_raises_on_first_error [OF p q r, of 0] by (simp add: m numeral_2_eq_2)
  with p q r show ?thesis by simp
qed

text \<open>
  Claim C3. When every poll that starts within the budget leaves the droplet pending
  (its status is neither \<open>"active"\<close> nor \<open>"error"\<close>), \<open>wait_for_droplet\<close> ends, after the
  polls that started within the budget, by raising \<open>TimeoutError\<close>; that exception
  differs from the failure-state exception in its class and in its text.
\<close>

theorem wait_times_out:
  assumes "\<forall>i. poll_time rem i < timeout_of t \<longrightarrow> pending rt rem a d i"
  shows "\<exists>n. wait_for_droplet rt rem a d t s =
               (Inl (Raise TimeoutError (timeout_msg rt d (timeout_of t))), n)
           \<and> (\<forall>i<n. poll_time rem i < timeout_of t)
           \<and> timeout_of t \<le> poll_time rem n
           \<and> Raise TimeoutError (timeout_msg rt d (timeout_of t))
               \<noteq> Raise Exception (error_state_msg rt d)
           \<and> timeout_msg rt d (timeout_of t) \<noteq> error_state_msg rt d"
proof -
  define n where "n = (LEAST k. timeout_of t \<le> poll_time rem k)"
  have ex: "timeout_of t \<le> poll_time rem (nat (timeout_of t))"
    using poll_time_lower [of "nat (timeout_of t)" rem] by (simp split: if_splits)
  then have at: "timeout_of t \<le> poll_time rem n"
    unfolding n_def by (rule LeastI)
  have before: "\<forall>i<n. poll_time rem i < timeout_of t"
    using not_less_Least [of _ "\<lambda>k. timeout_of t \<le> poll_time rem k"]
    unfolding n_def by (simp add: not_le)
  have "wait_for_droplet rt rem a d t s =
          (Inl (Raise TimeoutError (timeout_msg rt d (timeout_of t))), n)"
    using before assms at by (intro wait_timeout_at) auto
  with before at show ?thesis
    using messages_differ [of rt d "timeout_of t"] by blast
qed

text \<open>
  A droplet that stays \<open>"new"\<close> under the default budget of 300: the timeout is raised
  after 60 fetches.
\<close>

theorem wait_times_out_witness:
  "pending rt0 (simulated []) (DigitalOceanAPI ''tok'') (JInt 7) 0
   \<and> pending rt0 (simulated []) (DigitalOceanAPI ''tok'') (JInt 7) 59
   \<and> poll_time (simulated []) 59 < timeout_of None
   \<and> timeout_of None \<le> poll_time (simulated []) 60
   \<and> wait_for_droplet rt0 (simulated []) (DigitalOceanAPI ''tok'') (JInt 7) None 0
       = (Inl (Raise TimeoutError ''Droplet 7 did not become active within 300 seconds''), 60)"
proof -
  have p: "\<forall>i. poll_time (simulated []) i < timeout_of None \<longrightarrow>
             pending rt0 (simulated []) (DigitalOceanAPI ''tok'') (JInt 7) i"
    by (simp add: pending_def poll_simulated)
  have m: "timeout_msg rt0 (JInt 7) (timeout_of None)
             = ''Droplet 7 did not become active within 300 seconds''"
    by code_simp
  obtain n where w: "wait_for_droplet rt0 (simulated []) (DigitalOceanAPI ''tok'') (JInt 7)
        None 0 = (Inl (Raise TimeoutError (timeout_msg rt0 (JInt 7) (timeout_of None))), n)"
      and b: "\<forall>i<n. poll_time (simulated []) i < timeout_of None"
      and e: "timeout_of None \<le> poll_time (simulated []) n"
    using wait_times_out [OF p, of 0] by blast
  from e have "60 \<le> n" by (simp add: poll_time_simulated timeout_of_def)
  moreover have "\<not> 60 < n"
  proof
    assume "60 < n"
    with b have "poll_time (simulated []) 60 < timeout_of None" by blast
    then show False by (simp add: poll_time_simulated timeout_of_def)
  qed
  ultimately have "n = 60" by simp
  with w m p show ?thesis by (simp add: poll_time_simulated timeout_of_def)
qed

text \<open>
  Claim C10. The budget is tested before every fetch. With a timeout that is zero or
  negative, \<open>wait_for_droplet\<close> raises \<open>TimeoutError\<close> without a single fetch. In general,
  once the elapsed time has reached the budget at the loop test before poll \<open>k\<close>, the
  timeout is raised after \<open>k\<close> fetches, whatever poll \<open>k\<close> would have answered.
\<close>

theorem budget_tested_before_each_poll:
  "(timeout_of t \<le> 0 \<longrightarrow>
      wait_for_droplet rt rem a d t s =
        (Inl (Raise TimeoutError (timeout_msg rt d (timeout_of t))), 0))
   \<and> ((\<forall>i<k. pending rt rem a d i \<and> poll_time rem i < timeout_of t)
        \<and> timeout_of t \<le> poll_time rem k \<longrightarrow>
      wait_for_droplet rt rem a d t s =
        (Inl (Raise TimeoutError (timeout_msg rt d (timeout_of t))), k))"
proof (intro conjI impI)
  assume "timeout_of t \<le> 0"
  then show "wait_for_droplet rt rem a d t s =
      (Inl (Raise TimeoutError (timeout_msg rt d (timeout_of t))), 0)"
    using wait_timeout_at [of 0 rt rem a d t s] by simp
next
  assume "(\<forall>i<k. pending rt rem a d i \<and> poll_time rem i < timeout_of t)
            \<and> timeout_of t \<le> poll_time rem k"
  then show "wait_for_droplet rt rem a d t s =
      (Inl (Raise TimeoutError (timeout_msg rt d (timeout_of t))), k)"
    using wait_timeout_at [of k rt rem a d t s] by blast
qed

text \<open>
  A timeout of zero against a droplet that is already \<open>"active"\<close>: no fetch is made. A
  timeout of five against the statuses \<open>["new", "active"]\<close>: the second poll, which would
  have seen \<open>"active"\<close>, is never made.
\<close>

theorem budget_tested_before_each_poll_witness:
  "timeout_of (Some 0) \<le> 0
   \<and> poll rt0 (simulated [''active'']) (DigitalOceanAPI ''tok'') (JInt 7) 0
       = Inr (droplet_doc ''active'', JStr ''active'')
   \<and> wait_for_droplet rt0 (simulated [''active'']) (DigitalOceanAPI ''tok'') (JInt 7)
        (Some 0) 0
       = (Inl (Raise TimeoutError ''Droplet 7 did not become active within 0 seconds''), 0)
   \<and> pending rt0 (simulated [''new'', ''active'']) (DigitalOceanAPI ''tok'') (JInt 7) 0
   \<and> poll_time (simulated [''new'', ''active'']) 0 < timeout_of (Some 5)
   \<and> timeout_of (Some 5) \<le> poll_time (simulated [''new'', ''active'']) 1
   \<and> poll rt0 (simulated [''new'', ''active'']) (DigitalOceanAPI ''tok'') (JInt 7) 1
       = Inr (droplet_doc ''active'', JStr ''active'')
   \<and> wait_for_droplet rt0 (simulated [''new'', ''active'']) (DigitalOceanAPI ''tok'') (JInt 7)
        (Some 5) 0
       = (Inl (Raise TimeoutError ''Droplet 7 did not become active within 5 seconds''), 1)"
proof -
  have z: "timeout_of (Some 0) \<le> 0"
    by (simp add: timeout_of_def)
  have m0: "timeout_msg rt0 (JInt 7) (timeout_of (Some 0))
              = ''Droplet 7 did not become active within 0 seconds''"
    by code_simp
  have m5: "timeout_msg rt0 (JInt 7) (timeout_of (Some 5))
              = ''Droplet 7 did not become active within 5 seconds''"
    by code_simp
  have p: "\<forall>i<1. pending rt0 (simulated [''new'', ''active'']) (DigitalOceanAPI ''tok'')
             (JInt 7) i \<and> poll_time (simulated [''new'', ''active'']) i < timeout_of (Some 5)"
    by (simp add: pending_def poll_simulated timeout_of_def)
  have e: "timeout_of (Some 5) \<le> poll_time (simulated [''new'', ''active'']) 1"
    by (simp add: poll_time_simulated timeout_of_def)
  have w0: "wait_for_droplet rt0 (simulated [''active'']) (DigitalOceanAPI ''tok'') (JInt 7)
              (Some 0) 0
            = (Inl (Raise TimeoutError ''Droplet 7 did not become active within 0 seconds''), 0)"
    using budget_tested_before_each_poll
            [of "Some 0" rt0 "simulated [''active'']" "DigitalOceanAPI ''tok''" "JInt 7" 0 0] z
    by (simp add: m0)
  have w5: "wait_for_droplet rt0 (simulated [''new'', ''active'']) (DigitalOceanAPI ''tok'')
              (JInt 7) (Some 5) 0
            = (Inl (Raise TimeoutError ''Droplet 7 did not become active within 5 seconds''), 1)"
    using budget_tested_before_each_poll
            [of "Some 5" rt0 "simulated [''new'', ''active'']" "DigitalOceanAPI ''tok''"
                "JInt 7" 0 1] p e
    by (simp add: m5)
  show ?thesis
    using z p e w0 w5 by (simp add: poll_simulated)
qed

section \<open>GPU size filtering\<close>

lemma find_from_found: "find_from sub s i \<noteq> - 1 \<longleftrightarrow> sublist sub s"
  by (induction s arbitrary: i) (auto simp: sublist_Cons_right)

lemma py_find_found: "py_find s sub \<noteq> - 1 \<longleftrightarrow> sublist sub s"
  by (simp add: py_find_def find_from_found)

lemma comprehension_filter:
  "\<forall>x\<in>set xs. p x = Inr (q x) \<Longrightarrow> comprehension p xs = Inr (filter q xs)"
  by (induction xs) auto

lemma is_gpu_size_entry:
  "size_entry s \<Longrightarrow> is_gpu_size s = Inr (sublist ''gpu'' (lower (description s)))"
  by (cases s)
     (auto simp: is_gpu_size_def py_get_def py_find_found split: option.splits json.splits)

lemma gpu_filter_entries:
  "\<forall>s\<in>set sizes. size_entry s \<Longrightarrow>
   gpu_filter (JArr sizes) =
     Inr (JArr (filter (\<lambda>s. sublist ''gpu'' (lower (description s))) sizes))"
  using comprehension_filter
          [of sizes is_gpu_size "\<lambda>s. sublist ''gpu'' (lower (description s))"]
  by (simp add: gpu_filter_def py_iter_def is_gpu_size_entry)

text \<open>
  Outside these entries the comprehension raises: a \<open>description\<close> that is \<open>null\<close> has
  no method \<open>lower\<close>.
\<close>

lemma gpu_filter_null_description:
  "gpu_filter (JArr [JObj [(''description'', JNull)]]) = Inl (no_attribute JNull ''lower'')"
  by (simp add: gpu_filter_def py_iter_def is_gpu_size_def py_get_def)

lemma upper_GET: "upper ''GET'' = ''GET''"
  by code_simp

lemma upper_POST: "upper ''POST'' = ''POST''"
  by code_simp

lemma upper_DELETE: "upper ''DELETE'' = ''DELETE''"
  by code_simp

lemma mcp_make_request_GET:
  "mcp_make_request rt a ''GET'' e d = make_request rt a ''GET'' e d"
  by (simp add: mcp_make_request_def make_request_def upper_GET)

lemma mcp_make_request_POST:
  "mcp_make_request rt a ''POST'' e d = make_request rt a ''POST'' e d"
  by (simp add: mcp_make_request_def make_request_def upper_POST)

text \<open>
  Claim C8. For a size list whose entries are objects with a string description (or
  none), both clients return exactly the entries whose description, put in lower case,
  contains \<open>gpu\<close> as a contiguous substring, in the order of the list.
\<close>

theorem gpu_sizes_filter:
  assumes "\<forall>s\<in>set sizes. size_entry s"
      and "make_request rt a ''GET'' ''/sizes'' None = Inr (JObj kvs)"
      and "map_of kvs ''sizes'' = Some (JArr sizes)"
  shows "get_gpu_sizes rt a =
           Inr (JArr (filter (\<lambda>s. sublist ''gpu'' (lower (description s))) sizes))
       \<and> mcp_get_gpu_sizes rt a =
           Inr (JArr (filter (\<lambda>s. sublist ''gpu'' (lower (description s))) sizes))"
  using assms(2,3) gpu_filter_entries [OF assms(1)]
  by (simp add: get_gpu_sizes_def mcp_get_gpu_sizes_def mcp_get_sizes_def mcp_make_request_GET
      unwrap_def py_get_def)

text \<open>
  The descriptions \<open>"Basic"\<close>, \<open>"GPU Accelerated"\<close>, \<open>"gpu-optimized"\<close>: the last two
  entries are returned, in their order.
\<close>

theorem gpu_sizes_filter_witness:
  "size_entry (size_doc ''s-1'' ''Basic'')
   \<and> size_entry (size_doc ''g-1'' ''GPU Accelerated'')
   \<and> size_entry (size_doc ''g-2'' ''gpu-optimized'')
   \<and> get_gpu_sizes
        (rt0\<lparr>http := \<lambda>req. Inr (ok_response (JObj [(''sizes'',
           JArr [size_doc ''s-1'' ''Basic'', size_doc ''g-1'' ''GPU Accelerated'',
                 size_doc ''g-2'' ''gpu-optimized''])]))\<rparr>)
        (DigitalOceanAPI ''tok'')
       = Inr (JArr [size_doc ''g-1'' ''GPU Accelerated'', size_doc ''g-2'' ''gpu-optimized''])
   \<and> mcp_get_gpu_sizes
        (rt0\<lparr>http := \<lambda>req. Inr (ok_response (JObj [(''sizes'',
           JArr [size_doc ''s-1'' ''Basic'', size_doc ''g-1'' ''GPU Accelerated'',
                 size_doc ''g-2'' ''gpu-optimized''])]))\<rparr>)
        (DigitalOceanAPI ''tok'')
       = Inr (JArr [size_doc ''g-1'' ''GPU Accelerated'', size_doc ''g-2'' ''gpu-optimized''])"
proof -
  define sizes where
    "sizes = [size_doc ''s-1'' ''Basic'', size_doc ''g-1'' ''GPU Accelerated'',
              size_doc ''g-2'' ''gpu-optimized'']"
  define rt where
    "rt = rt0\<lparr>http := \<lambda>req. Inr (ok_response (JObj [(''sizes'', JArr sizes)]))\<rparr>"
  have e: "\<forall>s\<in>set sizes. size_entry s"
    by (simp add: sizes_def size_doc_def)
  have m: "make_request rt (DigitalOceanAPI ''tok'') ''GET'' ''/sizes'' None
             = Inr (JObj [(''sizes'', JArr sizes)])"
    by (simp add: rt_def make_request_def upper_GET after_send_def ok_response_def)
  have k: "map_of [(''sizes'', JArr sizes)] ''sizes'' = Some (JArr sizes)"
    by simp
  have b: "\<not> sublist ''gpu'' (lower ''Basic'')"
    by code_simp
  have g1: "sublist ''gpu'' (lower ''GPU Accelerated'')"
    by code_simp
  have g2: "sublist ''gpu'' (lower ''gpu-optimized'')"
    by code_simp
  have f: "filter (\<lambda>s. sublist ''gpu'' (lower (description s))) sizes
             = [size_doc ''g-1'' ''GPU Accelerated'', size_doc ''g-2'' ''gpu-optimized'']"
    by (simp add: sizes_def size_doc_def b g1 g2)
  show ?thesis
    using gpu_sizes_filter [OF e m k] e
    by (simp add: f) (simp add: rt_def sizes_def)
qed

section \<open>Boolean flags of the configuration\<close>

lemma of_char_lower_char:
  "(of_char (lower_char x) :: nat) =
     (if 65 \<le> (of_char x :: nat) \<and> (of_char x :: nat) \<le> 90 then of_char x + 32
      else of_char x)"
  by (simp add: lower_char_def Let_def)

lemma char_eq_code: "x = y \<longleftrightarrow> (of_char x :: nat) = of_char y"
  by simp

lemma lower_char_t: "lower_char x = CHR ''t'' \<longleftrightarrow> x = CHR ''t'' \<or> x = CHR ''T''"
  unfolding char_eq_code [of _ "CHR ''t''"] char_eq_code [of _ "CHR ''T''"] of_char_lower_char
  by auto

lemma lower_char_r: "lower_char x = CHR ''r'' \<longleftrightarrow> x = CHR ''r'' \<or> x = CHR ''R''"
  unfolding char_eq_code [of _ "CHR ''r''"] char_eq_code [of _ "CHR ''R''"] of_char_lower_char
  by auto

lemma lower_char_u: "lower_char x = CHR ''u'' \<longleftrightarrow> x = CHR ''u'' \<or> x = CHR ''U''"
  unfolding char_eq_code [of _ "CHR ''u''"] char_eq_code [of _ "CHR ''U''"] of_char_lower_char
  by auto

lemma lower_char_e: "lower_char x = CHR ''e'' \<longleftrightarrow> x = CHR ''e'' \<or> x = CHR ''E''"
  unfolding char_eq_code [of _ "CHR ''e''"] char_eq_code [of _ "CHR ''E''"] of_char_lower_char
  by auto

lemma lower_true: "lower v = ''true'' \<longleftrightarrow> is_true_ci v"
  by (auto simp: lower_def is_true_ci_def lower_char_t lower_char_r lower_char_u lower_char_e
      split: list.splits)

lemma not_true_false: "\<not> is_true_ci ''false''"
  by (simp add: is_true_ci_def)

lemma true_true: "is_true_ci ''true''"
  by (simp add: is_true_ci_def)

text \<open>
  Claim C9, as the code has it. Each of the four flags is true exactly when the value of
  its environment variable is the word \<open>true\<close> in any mix of upper and lower case. When
  the variable is unset, \<open>monitoring\<close> and \<open>ipv6\<close> are false, and \<open>private_networking\<close>
  and \<open>wait_for_active\<close> are true.
\<close>

theorem config_flags:
  "cfg_monitoring (load_config env)
     = (case env ''MONITORING'' of None \<Rightarrow> False | Some v \<Rightarrow> is_true_ci v)
   \<and> cfg_ipv6 (load_config env)
     = (case env ''IPV6'' of None \<Rightarrow> False | Some v \<Rightarrow> is_true_ci v)
   \<and> cfg_private_networking (load_config env)
     = (case env ''PRIVATE_NETWORKING'' of None \<Rightarrow> True | Some v \<Rightarrow> is_true_ci v)
   \<and> cfg_wait_for_active (load_config env)
     = (case env ''WAIT_FOR_ACTIVE'' of None \<Rightarrow> True | Some v \<Rightarrow> is_true_ci v)"
  by (simp add: load_config_def getenv_or_def lower_true not_true_false true_true
      split: option.splits)

text \<open>
  The claim as written fails: with an empty environment \<open>monitoring\<close> and \<open>ipv6\<close> are
  false, not true.
\<close>

theorem config_flags_counterexample:
  "\<not> cfg_monitoring (load_config (\<lambda>k. None)) \<and> \<not> cfg_ipv6 (load_config (\<lambda>k. None))"
  by (simp add: load_config_def getenv_or_def lower_true not_true_false)

section \<open>Error text of a failed request\<close>

lemma py_str_JStr: "py_str rp (JStr s) = s"
  by (simp add: py_str_def)

lemma make_request_known_method:
  assumes "\<forall>req. http rt req = Inr r"
      and "upper method \<in> set [''GET'', ''POST'', ''DELETE'']"
  shows "make_request rt a method e d = after_send rt (Inr r)"
    and "mcp_make_request rt a method e d = after_send rt (Inr r)"
  using assms by (auto simp: make_request_def mcp_make_request_def Let_def)

lemma after_send_message:
  "raise_for_status r = Some line \<Longrightarrow> body_json r = Inr (JObj kvs) \<Longrightarrow>
   map_of kvs ''message'' = Some m \<Longrightarrow>
   after_send rt (Inr r) = Inl (Raise Exception (''API Error: '' @ py_str (repr rt) m))"
proof -
  assume r: "raise_for_status r = Some line" and j: "body_json r = Inr (JObj kvs)"
    and m: "map_of kvs ''message'' = Some m"
  from m have "(''message'', m) \<in> set kvs"
    by (rule map_of_SomeD)
  then have "''message'' \<in> fst ` set kvs"
    by force
  with r j m show ?thesis
    by (simp add: after_send_def error_msg_def py_in_def py_index_def)
qed

lemma after_send_no_message:
  "raise_for_status r = Some line \<Longrightarrow> body_json r = Inr (JObj kvs) \<Longrightarrow>
   map_of kvs ''message'' = None \<Longrightarrow>
   after_send rt (Inr r) = Inl (Raise Exception (''API Error: '' @ line))"
  by (auto simp: after_send_def error_msg_def py_in_def map_of_eq_None_iff)

lemma after_send_not_json:
  "raise_for_status r = Some line \<Longrightarrow> body_json r = Inl x \<Longrightarrow>
   after_send rt (Inr r) = Inl (Raise Exception (''API Error: '' @ body_text r))"
  by (simp add: after_send_def error_msg_def)

text \<open>
  Claim C4, as the code has it. When the response to a request fails
  \<open>raise_for_status\<close>, both clients raise one \<open>Exception\<close> whose text is \<open>API Error: \<close>
  followed by the value of the \<open>message\<close> field when the body is a JSON object that
  has one, and \<open>API Error: \<close> followed by the raw body text when the body is not valid
  JSON.
\<close>

theorem failed_request_error_text:
  assumes "\<forall>req. http rt req = Inr r"
      and "raise_for_status r = Some line"
      and "upper method \<in> set [''GET'', ''POST'', ''DELETE'']"
  shows "(\<forall>kvs m. body_json r = Inr (JObj kvs) \<and> map_of kvs ''message'' = Some m \<longrightarrow>
            make_request rt a method e d =
              Inl (Raise Exception (''API Error: '' @ py_str (repr rt) m))
            \<and> mcp_make_request rt a method e d =
              Inl (Raise Exception (''API Error: '' @ py_str (repr rt) m)))
       \<and> (\<forall>x. body_json r = Inl x \<longrightarrow>
            make_request rt a method e d =
              Inl (Raise Exception (''API Error: '' @ body_text r))
            \<and> mcp_make_request rt a method e d =
              Inl (Raise Exception (''API Error: '' @ body_text r)))"
  using make_request_known_method [OF assms(1,3)] assms(2)
  by (simp add: after_send_message after_send_not_json)

text \<open>
  The 404 with \<open>message = "not found"\<close> gives the text \<open>API Error: not found\<close>; the 502
  with the body \<open>Bad Gateway\<close> gives \<open>API Error: Bad Gateway\<close>.
\<close>

theorem failed_request_error_text_witness:
  "raise_for_status not_found_response \<noteq> None
   \<and> body_json not_found_response = Inr (JObj [(''message'', JStr ''not found'')])
   \<and> make_request (rt0\<lparr>http := \<lambda>req. Inr not_found_response\<rparr>) (DigitalOceanAPI ''tok'')
        ''GET'' ''/droplets/1'' None
       = Inl (Raise Exception ''API Error: not found'')
   \<and> mcp_make_request (rt0\<lparr>http := \<lambda>req. Inr not_found_response\<rparr>) (DigitalOceanAPI ''tok'')
        ''GET'' ''/droplets/1'' None
       = Inl (Raise Exception ''API Error: not found'')
   \<and> raise_for_status bad_gateway_response \<noteq> None
   \<and> make_request (rt0\<lparr>http := \<lambda>req. Inr bad_gateway_response\<rparr>) (DigitalOceanAPI ''tok'')
        ''GET'' ''/droplets/1'' None
       = Inl (Raise Exception ''API Error: Bad Gateway'')
   \<and> mcp_make_request (rt0\<lparr>http := \<lambda>req. Inr bad_gateway_response\<rparr>)
        (DigitalOceanAPI ''tok'') ''GET'' ''/droplets/1'' None
       = Inl (Raise Exception ''API Error: Bad Gateway'')"
proof -
  have g: "upper ''GET'' \<in> set [''GET'', ''POST'', ''DELETE'']"
    by (simp add: upper_GET)
  have n1: "\<forall>req. http (rt0\<lparr>http := \<lambda>req. Inr not_found_response\<rparr>) req
              = Inr not_found_response"
    by simp
  have n2: "raise_for_status not_found_response =
      Some ''404 Client Error: Not Found for url: https://api.digitalocean.com/v2/droplets/1''"
    by (simp add: not_found_response_def)
  have n3: "body_json not_found_response = Inr (JObj [(''message'', JStr ''not found'')])"
    by (simp add: not_found_response_def)
  have b1: "\<forall>req. http (rt0\<lparr>http := \<lambda>req. Inr bad_gateway_response\<rparr>) req
              = Inr bad_gateway_response"
    by simp
  have b2: "raise_for_status bad_gateway_response =
      Some ''502 Server Error: Bad Gateway for url: https://api.digitalocean.com/v2/droplets/1''"
    by (simp add: bad_gateway_response_def)
  have b3: "body_json bad_gateway_response =
      Inl (Raise RequestException ''Expecting value: line 1 column 1 (char 0)'')"
    by (simp add: bad_gateway_response_def)
  have b4: "body_text bad_gateway_response = ''Bad Gateway''"
    by (simp add: bad_gateway_response_def)
  show ?thesis
    using failed_request_error_text [OF n1 n2 g, of "DigitalOceanAPI ''tok''" "''/droplets/1''" None]
          failed_request_error_text [OF b1 b2 g, of "DigitalOceanAPI ''tok''" "''/droplets/1''" None]
    by (simp add: n2 n3 b2 b3 b4 py_str_JStr)
qed

text \<open>
  The claim as written fails: the text raised for the 404 is not the value of the
  \<open>message\<close> field, and the text raised for the 502 is not the raw body; each carries
  the prefix \<open>API Error: \<close>.
\<close>

theorem failed_request_error_text_counterexample:
  "make_request (rt0\<lparr>http := \<lambda>req. Inr not_found_response\<rparr>) (DigitalOceanAPI ''tok'')
     ''GET'' ''/droplets/1'' None
    = Inl (Raise Exception ''API Error: not found'')
   \<and> mcp_make_request (rt0\<lparr>http := \<lambda>req. Inr not_found_response\<rparr>) (DigitalOceanAPI ''tok'')
     ''GET'' ''/droplets/1'' None
    = Inl (Raise Exception ''API Error: not found'')
   \<and> body_json not_found_response = Inr (JObj [(''message'', JStr ''not found'')])
   \<and> message (Raise Exception ''API Error: not found'') \<noteq> ''not found''
   \<and> make_request (rt0\<lparr>http := \<lambda>req. Inr bad_gateway_response\<rparr>) (DigitalOceanAPI ''tok'')
     ''GET'' ''/droplets/1'' None
    = Inl (Raise Exception ''API Error: Bad Gateway'')
   \<and> mcp_make_request (rt0\<lparr>http := \<lambda>req. Inr bad_gateway_response\<rparr>) (DigitalOceanAPI ''tok'')
     ''GET'' ''/droplets/1'' None
    = Inl (Raise Exception ''API Error: Bad Gateway'')
   \<and> body_text bad_gateway_response = ''Bad Gateway''
   \<and> message (Raise Exception ''API Error: Bad Gateway'') \<noteq> body_text bad_gateway_response"
  by (simp add: make_request_def mcp_make_request_def upper_GET after_send_def error_msg_def
      not_found_response_def bad_gateway_response_def py_in_def py_index_def py_str_def)

section \<open>Body of the create-droplet request\<close>

lemma truthy_falsy: "truthy v \<longleftrightarrow> v \<notin> set falsy_values"
  by (cases v) (auto simp: truthy_def falsy_values_def)

lemma JNull_falsy: "JNull \<in> set falsy_values"
  by (simp add: falsy_values_def)

text \<open>
  Claim C5. The request that \<open>create_droplet\<close> sends is a POST to \<open>/droplets\<close> whose
  body is \<open>droplet_data\<close>, in both files. In that body each of \<open>ssh_keys\<close>, \<open>tags\<close> and
  \<open>user_data\<close> is absent when the argument is left out, \<open>None\<close> or empty (any value that
  Python takes as false), and otherwise holds the argument unchanged; \<open>monitoring\<close>,
  \<open>ipv6\<close> and \<open>private_networking\<close> are always present, holding the argument, or
  \<open>False\<close>, \<open>False\<close> and \<open>True\<close> when it is left out.
\<close>

theorem create_droplet_body:
  "create_droplet rt a name region sz img ssh_keys tags user_data monitoring ipv6
       private_networking
     = unwrap (after_send rt (http rt
         \<lparr>req_method = ''POST'', req_url = BASE_URL @ ''/droplets'', req_headers = headers a,
          req_json = Some (JObj (droplet_data name region sz img ssh_keys tags user_data
                                   monitoring ipv6 private_networking))\<rparr>))
         ''droplet'' (JObj [])
   \<and> mcp_create_droplet rt a name region sz img ssh_keys tags user_data monitoring ipv6
       private_networking
     = unwrap (after_send rt (http rt
         \<lparr>req_method = ''POST'', req_url = BASE_URL @ ''/droplets'', req_headers = headers a,
          req_json = Some (JObj (droplet_data name region sz img ssh_keys tags user_data
                                   monitoring ipv6 private_networking))\<rparr>))
         ''droplet'' (JObj [])
   \<and> map_of (droplet_data name region sz img ssh_keys tags user_data monitoring ipv6
               private_networking) ''ssh_keys''
     = (case ssh_keys of
          None \<Rightarrow> None
        | Some v \<Rightarrow> if v \<in> set falsy_values then None else Some v)
   \<and> map_of (droplet_data name region sz img ssh_keys tags user_data monitoring ipv6
               private_networking) ''tags''
     = (case tags of
          None \<Rightarrow> None
        | Some v \<Rightarrow> if v \<in> set falsy_values then None else Some v)
   \<and> map_of (droplet_data name region sz img ssh_keys tags user_data monitoring ipv6
               private_networking) ''user_data''
     = (case user_data of
          None \<Rightarrow> None
        | Some v \<Rightarrow> if v \<in> set falsy_values then None else Some v)
   \<and> map_of (droplet_data name region sz img ssh_keys tags user_data monitoring ipv6
               private_networking) ''monitoring''
     = Some (case monitoring of None \<Rightarrow> JBool False | Some v \<Rightarrow> v)
   \<and> map_of (droplet_data name region sz img ssh_keys tags user_data monitoring ipv6
               private_networking) ''ipv6''
     = Some (case ipv6 of None \<Rightarrow> JBool False | Some v \<Rightarrow> v)
   \<and> map_of (droplet_data name region sz img ssh_keys tags user_data monitoring ipv6
               private_networking) ''private_networking''
     = Some (case private_networking of None \<Rightarrow> JBool True | Some v \<Rightarrow> v)"
proof (intro conjI)
  show "create_droplet rt a name region sz img ssh_keys tags user_data monitoring ipv6
       private_networking
     = unwrap (after_send rt (http rt
         \<lparr>req_method = ''POST'', req_url = BASE_URL @ ''/droplets'', req_headers = headers a,
          req_json = Some (JObj (droplet_data name region sz img ssh_keys tags user_data
                                   monitoring ipv6 private_networking))\<rparr>))
         ''droplet'' (JObj [])"
    by (simp add: create_droplet_def make_request_def upper_POST)
  show "mcp_create_droplet rt a name region sz img ssh_keys tags user_data monitoring ipv6
       private_networking
     = unwrap (after_send rt (http rt
         \<lparr>req_method = ''POST'', req_url = BASE_URL @ ''/droplets'', req_headers = headers a,
          req_json = Some (JObj (droplet_data name region sz img ssh_keys tags user_data
                                   monitoring ipv6 private_networking))\<rparr>))
         ''droplet'' (JObj [])"
    by (simp add: mcp_create_droplet_def mcp_make_request_POST make_request_def upper_POST)
qed (simp_all add: droplet_data_def Let_def update_conv' truthy_falsy JNull_falsy
       split: option.splits)

section \<open>The dispatch boundary\<close>

lemma get_api_client_cached:
  "api_client st = Some c \<Longrightarrow> get_api_client rt st = (Inr c, st)"
  by (simp add: get_api_client_def)

lemma get_api_client_created:
  "api_client st = None \<Longrightarrow> env_set (getenv rt) TOKEN \<Longrightarrow>
   get_api_client rt st =
     (Inr (DigitalOceanAPI (getenv_or (getenv rt) TOKEN [])),
      st\<lparr>api_client := Some (DigitalOceanAPI (getenv_or (getenv rt) TOKEN []))\<rparr>)"
  by (simp add: get_api_client_def TOKEN_def Let_def)

lemma get_api_client_fails:
  "api_client st = None \<Longrightarrow> \<not> env_set (getenv rt) TOKEN \<Longrightarrow>
   get_api_client rt st =
     (Inl (Raise ValueError ''DIGITALOCEAN_API_TOKEN environment variable is not set''), st)"
  by (simp add: get_api_client_def TOKEN_def)




lemma dispatch_unknown:
  "name \<notin> set tool_names \<Longrightarrow>
   dispatch rt a name args = Inr [TextContent (''Unknown tool: '' @ name)]"
  by (simp add: dispatch_def tool_names_def)

lemma call_tool_with_client:
  "get_api_client rt st = (Inr c, st') \<Longrightarrow>
   call_tool rt st name args =
     (case dispatch rt c name args of
        Inl e \<Rightarrow> (Inr [TextContent (''Error: '' @ message e)], st')
      | Inr out \<Rightarrow> (Inr out, st'))"
  by (simp add: call_tool_def)

lemma call_tool_without_client:
  "api_client st = None \<Longrightarrow> \<not> env_set (getenv rt) TOKEN \<Longrightarrow>
   call_tool rt st name args = (Inr [TextContent not_set_text], st)"
  by (simp add: call_tool_def get_api_client_fails not_set_text_def)




text \<open>
  The operations that read their argument with \<open>arguments.get\<close> raise nothing when it
  is missing: the request is sent for the identifier \<open>None\<close>, and the answer of the
  remote service decides the result.
\<close>

lemma dispatch_get_droplet_without_id:
  "map_of kvs ''droplet_id'' = None \<Longrightarrow>
   dispatch rt c ''do_get_droplet'' (JObj kvs) =
     dumped rt (unwrap (after_send rt (http rt
       \<lparr>req_method = ''GET'', req_url = BASE_URL @ ''/droplets/None'',
        req_headers = headers c, req_json = None\<rparr>)) ''droplet'' (JObj []))"
  by (simp add: dispatch_def bind_err_def py_get_def mcp_get_droplet_def mcp_make_request_def
      upper_GET py_str_def)



text \<open>
  Claim C6, as the code has it. For a name that is not in the catalog, \<open>call_tool\<close>
  returns a text result and raises nothing. The text says that the tool is unknown
  whenever the client exists already or the credential is set; when there is no client
  and no credential, the text is the credential error, since the client is looked up
  before the name.
\<close>

theorem unknown_tool_result:
  assumes "name \<notin> set tool_names"
  shows "call_tool rt st name args =
           (if api_client st = None \<and> \<not> env_set (getenv rt) TOKEN
            then (Inr [TextContent not_set_text], st)
            else (Inr [TextContent (''Unknown tool: '' @ name)], snd (get_api_client rt st)))"
proof (cases "api_client st = None \<and> \<not> env_set (getenv rt) TOKEN")
  case True
  then show ?thesis
    by (simp add: call_tool_without_client)
next
  case False
  then obtain c st' where g: "get_api_client rt st = (Inr c, st')"
    using get_api_client_cached [of st _ rt] get_api_client_created [of st rt]
    by (cases "api_client st") auto
  have r: "call_tool rt st name args = (Inr [TextContent (''Unknown tool: '' @ name)], st')"
    by (simp add: call_tool_with_client [OF g] dispatch_unknown [OF assms])
  have s: "snd (get_api_client rt st) = st'"
    using g by simp
  show ?thesis
    by (subst if_not_P [OF False]) (simp add: r s)
qed

theorem unknown_tool_result_witness:
  "''do_reboot_droplet'' \<notin> set tool_names
   \<and> call_tool rt0 \<lparr>api_client = Some (DigitalOceanAPI ''tok'')\<rparr> ''do_reboot_droplet'' (JObj [])
       = (Inr [TextContent ''Unknown tool: do_reboot_droplet''],
          \<lparr>api_client = Some (DigitalOceanAPI ''tok'')\<rparr>)"
proof -
  have n: "''do_reboot_droplet'' \<notin> set tool_names"
    by (simp add: tool_names_def)
  show ?thesis
    using unknown_tool_result
            [OF n, of rt0 "\<lparr>api_client = Some (DigitalOceanAPI ''tok'')\<rparr>" "JObj []"] n
    by (simp add: get_api_client_def)
qed

text \<open>
  The claim as written fails: with no client and no credential, the result for an
  unknown name is the credential error, not a statement that the name is unknown.
\<close>

theorem unknown_tool_result_counterexample:
  "''do_reboot_droplet'' \<notin> set tool_names
   \<and> api_client \<lparr>api_client = None\<rparr> = None
   \<and> getenv rt0 ''DIGITALOCEAN_API_TOKEN'' = None
   \<and> call_tool rt0 \<lparr>api_client = None\<rparr> ''do_reboot_droplet'' (JObj [])
       = (Inr [TextContent ''Error: DIGITALOCEAN_API_TOKEN environment variable is not set''],
          \<lparr>api_client = None\<rparr>)
   \<and> call_tool rt0 \<lparr>api_client = None\<rparr> ''do_reboot_droplet'' (JObj [])
       \<noteq> (Inr [TextContent ''Unknown tool: do_reboot_droplet''], \<lparr>api_client = None\<rparr>)"
  by (simp add: tool_names_def rt0_def call_tool_def get_api_client_def env_set_def
      TextContent_def)












end
